theory Spec2Isabelle
  imports Complex_Main
begin

section \<open>Configuration constants\<close>

text \<open>
  The module-level constants of \<^verbatim>\<open>No-Trading-aportunity.py\<close> (lines 20 to 27).
  Python floats are idealised as \<^typ>\<open>real\<close>; a float that may be NaN (an oscillator
  reading) is a \<^typ>\<open>real option\<close> with \<^term>\<open>None\<close> for NaN.
\<close>

definition TIMEFRAME :: string where
  "TIMEFRAME = ''1min''"

definition UPDATE_INTERVAL :: real where
  "UPDATE_INTERVAL = 60"

definition HISTORY_LENGTH :: nat where
  "HISTORY_LENGTH = 100"

definition RSI_PERIOD :: nat where
  "RSI_PERIOD = 14"

definition RSI_OVERBOUGHT :: real where
  "RSI_OVERBOUGHT = 50"

definition RSI_OVERSOLD :: real where
  "RSI_OVERSOLD = 40"


definition RATE_LIMIT :: nat where
  "RATE_LIMIT = 6"

section \<open>Data\<close>

datatype py_error = IndexError | KeyError | ValueError | ZeroDivisionError

text \<open>A bar of the provider's JSON: an object from field names to strings.\<close>

type_synonym bar = "string \<rightharpoonup> string"

text \<open>
  The decoded JSON body of a reply: the optional \<^verbatim>\<open>code\<close>, \<^verbatim>\<open>message\<close> and
  \<^verbatim>\<open>values\<close> members. The empty object has all three absent.
\<close>

record payload =
  p_code :: "int option"
  p_message :: "string option"
  p_values :: "bar list option"

text \<open>
  What \<^verbatim>\<open>session.get\<close> does for one request: it times out, fails with another
  exception, or replies with a status and a body; the body is \<^term>\<open>None\<close> when
  \<^verbatim>\<open>response.json()\<close> raises.
\<close>

datatype http_outcome = TimedOut | NetworkError | Reply int "payload option"

text \<open>
  The environment of one call of \<^verbatim>\<open>api_request\<close>: the clock read at line 60, the
  clock read at line 72 when the reply is there, and what the request does.
\<close>

record request_env =
  t_start :: real
  t_response :: real
  outcome :: http_outcome

datatype signal = CALL | PUT | NoSignal

text \<open>
  The dictionary \<^verbatim>\<open>analyze_pair\<close> returns. Its \<^verbatim>\<open>timestamp\<close> member, a reading
  of the wall clock that only the message text shows, is left out.
\<close>

record analysis =
  signal :: signal
  price :: real
  rsi :: "real option"
  timeframe :: string

text \<open>The dictionary \<^verbatim>\<open>get_market_data\<close> returns on success.\<close>

record market_data =
  md_close :: real
  md_pair :: string
  md_timestamp :: nat

text \<open>
  The mutable fields of \<^verbatim>\<open>OTCTradingBot\<close>; \<^verbatim>\<open>price_history[pair]['close']\<close> is
  \<open>price_history self pair\<close>.
\<close>

record bot_state =
  price_history :: "string \<rightharpoonup> real list"
  last_api_call :: real
  api_calls :: nat
  last_prediction :: "string \<rightharpoonup> analysis"

text \<open>What \<^verbatim>\<open>ta.rsi\<close> does: it raises, returns \<^verbatim>\<open>None\<close>, or returns a series.\<close>

datatype rsi_result = RsiRaised | RsiNone | RsiSeries "real option list"

text \<open>
  The library functions the bot calls, as parameters: the builtin \<^verbatim>\<open>float\<close> and
  \<^verbatim>\<open>datetime.fromisoformat\<close> (\<^term>\<open>None\<close> when they raise \<^verbatim>\<open>ValueError\<close>), and the
  oscillator \<^verbatim>\<open>ta.rsi\<close> of pandas-ta with its \<^verbatim>\<open>length\<close> argument.
\<close>

record externals =
  py_float :: "string \<Rightarrow> real option"
  fromisoformat :: "string \<Rightarrow> nat option"
  ta_rsi :: "real list \<Rightarrow> nat \<Rightarrow> rsi_result"

text \<open>The message handed to \<^verbatim>\<open>self.bot.send_message\<close>: its kind and the values it shows.\<close>

datatype notification =
  NoOpportunity string "real option" real
  | SignalAlert signal string "real option" real string

definition init_bot :: "string list \<Rightarrow> bot_state" where
  "init_bot pairs =
     \<lparr>price_history = map_of (map (\<lambda>p. (p, [])) pairs),
      last_api_call = 0, api_calls = 0, last_prediction = Map.empty\<rparr>"

section \<open>Rate-limited requests\<close>

text \<open>The condition of line 61.\<close>

definition throttled :: "bot_state \<Rightarrow> real \<Rightarrow> bool" where
  "throttled self now \<longleftrightarrow> now - last_api_call self < 60 \<and> RATE_LIMIT \<le> api_calls self"

text \<open>The seconds \<^verbatim>\<open>api_request\<close> sleeps before it issues the request (lines 61 to 64).\<close>

definition wait_time :: "bot_state \<Rightarrow> real \<Rightarrow> real" where
  "wait_time self now = (if throttled self now then 60 - (now - last_api_call self) else 0)"

text \<open>
  \<^verbatim>\<open>api_request\<close> (lines 58 to 91). Every exception is caught inside, so the result is
  the new state, the seconds slept and the data or \<^term>\<open>None\<close>.
\<close>

definition api_request :: "bot_state \<Rightarrow> request_env \<Rightarrow> bot_state \<times> real \<times> payload option" where
  "api_request self req =
     (let now = t_start req;
          w = wait_time self now;
          self1 = (if throttled self now then self\<lparr>api_calls := 0\<rparr> else self)
      in case outcome req of
           TimedOut \<Rightarrow> (self1, w, None)
         | NetworkError \<Rightarrow> (self1, w, None)
         | Reply status body \<Rightarrow>
             (let self2 = self1\<lparr>last_api_call := t_response req, api_calls := api_calls self1 + 1\<rparr>
              in if status \<noteq> 200 then (self2, w, None)
                 else case body of
                        None \<Rightarrow> (self2, w, None)
                      | Some data \<Rightarrow>
                          (case p_code data of
                             Some c \<Rightarrow> if c \<noteq> 200 then (self2, w, None) else (self2, w, Some data)
                           | None \<Rightarrow> (self2, w, Some data))))"

text \<open>The request got a reply: lines 72 and 73 ran.\<close>

definition answered :: "request_env \<Rightarrow> bool" where
  "answered req \<longleftrightarrow> (case outcome req of Reply _ _ \<Rightarrow> True | _ \<Rightarrow> False)"

text \<open>A run of requests, one after the other: the final state and the seconds each one slept.\<close>

fun api_requests :: "bot_state \<Rightarrow> request_env list \<Rightarrow> bot_state \<times> real list" where
  "api_requests self [] = (self, [])"
| "api_requests self (req # reqs) =
     (case api_request self req of
        (self1, w, _) \<Rightarrow> (case api_requests self1 reqs of (self2, ws) \<Rightarrow> (self2, w # ws)))"

section \<open>Fetching and the price history\<close>

text \<open>The list comprehension of line 119 over the bars it is given, first bar first.\<close>

fun bar_closes :: "externals \<Rightarrow> bar list \<Rightarrow> py_error + real list" where
  "bar_closes ext [] = Inr []"
| "bar_closes ext (b # bs) =
     (case b ''close'' of
        None \<Rightarrow> Inl KeyError
      | Some s \<Rightarrow>
          (case py_float ext s of
             None \<Rightarrow> Inl ValueError
           | Some x \<Rightarrow>
               (case bar_closes ext bs of Inl e \<Rightarrow> Inl e | Inr xs \<Rightarrow> Inr (x # xs))))"

text \<open>The rolling update of lines 124 to 126: append, then drop the oldest when over capacity.\<close>

definition rolling_update :: "real list \<Rightarrow> real \<Rightarrow> real list" where
  "rolling_update h p = (let h1 = h @ [p] in if HISTORY_LENGTH < length h1 then tl h1 else h1)"

text \<open>
  \<^verbatim>\<open>get_market_data\<close> (lines 93 to 129). An exception it lets through is \<^term>\<open>Inl\<close>,
  with the state as the exception leaves it.
\<close>

definition get_market_data ::
  "externals \<Rightarrow> bot_state \<Rightarrow> request_env \<Rightarrow> string \<Rightarrow> bool
    \<Rightarrow> (py_error \<times> bot_state) + (bot_state \<times> market_data option)" where
  "get_market_data ext self req pair history =
     (case api_request self req of
        (self1, _, data) \<Rightarrow>
          (case data of
             None \<Rightarrow> Inr (self1, None)
           | Some d \<Rightarrow>
               (case p_values d of
                  None \<Rightarrow> Inr (self1, None)
                | Some bars \<Rightarrow>
                    (case bars of
                       [] \<Rightarrow> Inl (IndexError, self1)
                     | latest_bar # _ \<Rightarrow>
                         (case latest_bar ''close'' of
                            None \<Rightarrow> Inl (KeyError, self1)
                          | Some cs \<Rightarrow>
                              (case py_float ext cs of
                                 None \<Rightarrow> Inl (ValueError, self1)
                               | Some pr \<Rightarrow>
                                   (case latest_bar ''datetime'' of
                                      None \<Rightarrow> Inl (KeyError, self1)
                                    | Some ds \<Rightarrow>
                                        (case fromisoformat ext ds of
                                           None \<Rightarrow> Inl (ValueError, self1)
                                         | Some ts \<Rightarrow>
                                             (if history then
                                                (case bar_closes ext (rev bars) of
                                                   Inl e \<Rightarrow> Inl (e, self1)
                                                 | Inr closes \<Rightarrow>
                                                     (case price_history self1 pair of
                                                        None \<Rightarrow> Inl (KeyError, self1)
                                                      | Some _ \<Rightarrow>
                                                          Inr (self1\<lparr>price_history := (price_history self1)(pair \<mapsto> closes)\<rparr>,
                                                               Some \<lparr>md_close = pr, md_pair = pair, md_timestamp = ts\<rparr>)))
                                              else
                                                (case price_history self1 pair of
                                                   None \<Rightarrow> Inl (KeyError, self1)
                                                 | Some h \<Rightarrow>
                                                     Inr (self1\<lparr>price_history := (price_history self1)(pair \<mapsto> rolling_update h pr)\<rparr>,
                                                          Some \<lparr>md_close = pr, md_pair = pair, md_timestamp = ts\<rparr>)))))))))))"

section \<open>Analysis\<close>

text \<open>
  \<^verbatim>\<open>round(x, 2)\<close> on a NumPy float: the nearest multiple of one hundredth, a tie going
  to the even one; NaN stays NaN.
\<close>

definition round_half_even :: "real \<Rightarrow> int" where
  "round_half_even y =
     (let f = \<lfloor>y\<rfloor>; d = y - of_int f
      in if d < 1 / 2 then f else if 1 / 2 < d then f + 1 else if even f then f else f + 1)"

definition round2 :: "real option \<Rightarrow> real option" where
  "round2 r = map_option (\<lambda>x. of_int (round_half_even (x * 100)) / 100) r"

text \<open>Comparisons of a float that may be NaN with a threshold: with NaN each one is false.\<close>

definition fle :: "real option \<Rightarrow> real \<Rightarrow> bool" where
  "fle r t = (case r of None \<Rightarrow> False | Some x \<Rightarrow> x \<le> t)"

definition fge :: "real option \<Rightarrow> real \<Rightarrow> bool" where
  "fge r t = (case r of None \<Rightarrow> False | Some x \<Rightarrow> t \<le> x)"

definition flt :: "real option \<Rightarrow> real \<Rightarrow> bool" where
  "flt r t = (case r of None \<Rightarrow> False | Some x \<Rightarrow> x < t)"

definition fgt :: "real option \<Rightarrow> real \<Rightarrow> bool" where
  "fgt r t = (case r of None \<Rightarrow> False | Some x \<Rightarrow> t < x)"

text \<open>Lines 149 to 154: the signal from \<^verbatim>\<open>current_rsi\<close> and \<^verbatim>\<open>previous_rsi\<close>.\<close>

definition classify :: "real option \<Rightarrow> real option \<Rightarrow> signal" where
  "classify current_rsi previous_rsi =
     (if fle current_rsi RSI_OVERSOLD \<and> fgt previous_rsi RSI_OVERSOLD then CALL
      else if fge current_rsi RSI_OVERBOUGHT \<and> flt previous_rsi RSI_OVERBOUGHT then PUT
      else NoSignal)"

text \<open>Lines 143 and 144: the two readings taken from a series that is not empty.\<close>

definition current_reading :: "real option list \<Rightarrow> real option" where
  "current_reading series = round2 (last series)"

definition previous_reading :: "real option list \<Rightarrow> real option" where
  "previous_reading series =
     (if 1 < length series then round2 (series ! (length series - 2))
      else current_reading series)"

text \<open>
  Line 147: the percentage change between the two most recent prices. Dividing a Python
  float by zero raises.
\<close>

definition price_change :: "real list \<Rightarrow> py_error + real" where
  "price_change close_prices =
     (if 1 < length close_prices then
        (let prev = close_prices ! (length close_prices - 2)
         in if prev = 0 then Inl ZeroDivisionError
            else Inr \<bar>(last close_prices - prev) / prev * 100\<bar>)
      else Inr 0)"

text \<open>
  The body of \<^verbatim>\<open>analyze_pair\<close> (lines 133 to 167) on the closing prices of the pair.
  Whatever is raised inside the \<^verbatim>\<open>try\<close> is caught there and gives \<^term>\<open>None\<close>.
\<close>

definition analyze_closes :: "externals \<Rightarrow> real list \<Rightarrow> analysis option" where
  "analyze_closes ext close_prices =
     (if length close_prices < RSI_PERIOD + 1 then None
      else case ta_rsi ext close_prices RSI_PERIOD of
             RsiRaised \<Rightarrow> None
           | RsiNone \<Rightarrow> None
           | RsiSeries series \<Rightarrow>
               (if series = [] then None
                else let current_rsi = current_reading series;
                         previous_rsi = previous_reading series;
                         current_price = last close_prices
                     in case price_change close_prices of
                          Inl e \<Rightarrow> None
                        | Inr change \<Rightarrow>
                            Some \<lparr>signal = classify current_rsi previous_rsi,
                                  price = current_price, rsi = current_rsi,
                                  timeframe = TIMEFRAME\<rparr>))"

text \<open>\<^verbatim>\<open>analyze_pair\<close>: the lookup of line 132 is outside the \<^verbatim>\<open>try\<close>.\<close>

definition analyze_pair :: "externals \<Rightarrow> bot_state \<Rightarrow> string \<Rightarrow> py_error + analysis option" where
  "analyze_pair ext self pair =
     (case price_history self pair of
        None \<Rightarrow> Inl KeyError
      | Some close_prices \<Rightarrow> Inr (analyze_closes ext close_prices))"

section \<open>Notification and the cycle\<close>

text \<open>
  \<^verbatim>\<open>send_signal\<close> (lines 211 to 239): the message it builds and hands to the messaging
  client. A delivery that fails, also for want of a client, is caught and printed, so
  nothing is raised.
\<close>

definition send_signal :: "analysis \<Rightarrow> string \<Rightarrow> notification" where
  "send_signal a pair =
     (if signal a = NoSignal then NoOpportunity pair (rsi a) (price a)
      else SignalAlert (signal a) pair (rsi a) (price a) (timeframe a))"

fun subject :: "notification \<Rightarrow> string" where
  "subject (NoOpportunity pair _ _) = pair"
| "subject (SignalAlert _ pair _ _ _) = pair"

text \<open>
  The body of the loop over the pairs (lines 182 to 202) for one pair: the new state and
  the messages dispatched, or the exception that leaves the body. The block of lines 186
  to 196 only prints and catches what it raises.
\<close>

definition process_pair ::
  "externals \<Rightarrow> bot_state \<Rightarrow> string \<times> request_env
    \<Rightarrow> (py_error \<times> bot_state) + (bot_state \<times> notification list)" where
  "process_pair ext self item =
     (case item of
        (pair, req) \<Rightarrow>
          (case get_market_data ext self req pair False of
             Inl err \<Rightarrow> Inl err
           | Inr (self1, None) \<Rightarrow> Inr (self1, [])
           | Inr (self1, Some d) \<Rightarrow>
               (case analyze_pair ext self1 pair of
                  Inl e \<Rightarrow> Inl (e, self1)
                | Inr None \<Rightarrow> Inr (self1, [])
                | Inr (Some a) \<Rightarrow>
                    Inr (if signal a \<noteq> NoSignal
                         then self1\<lparr>last_prediction := (last_prediction self1)(pair \<mapsto> a)\<rparr>
                         else self1,
                         [send_signal a pair]))))"

text \<open>
  The loop over the pairs of one cycle (line 181): an exception ends it where it is
  raised. The messages dispatched before that stay dispatched.
\<close>

fun process_pairs ::
  "externals \<Rightarrow> bot_state \<Rightarrow> (string \<times> request_env) list
    \<Rightarrow> (py_error \<times> bot_state \<times> notification list) + (bot_state \<times> notification list)" where
  "process_pairs ext self [] = Inr (self, [])"
| "process_pairs ext self (item # items) =
     (case process_pair ext self item of
        Inl (e, self1) \<Rightarrow> Inl (e, self1, [])
      | Inr (self1, ns) \<Rightarrow>
          (case process_pairs ext self1 items of
             Inl (e, self2, ms) \<Rightarrow> Inl (e, self2, ns @ ms)
           | Inr (self2, ms) \<Rightarrow> Inr (self2, ns @ ms)))"

text \<open>
  One iteration of the \<^verbatim>\<open>while\<close> loop (lines 178 to 209): the state after it, the
  messages dispatched, the exception the top-level handler caught if any, and the seconds
  slept before the next iteration.
\<close>

record cycle_result =
  state_after :: bot_state
  dispatched :: "notification list"
  caught :: "py_error option"
  slept :: real

definition cycle :: "externals \<Rightarrow> bot_state \<Rightarrow> (string \<times> request_env) list \<Rightarrow> cycle_result" where
  "cycle ext self items =
     (case process_pairs ext self items of
        Inr (self1, ns) \<Rightarrow>
          \<lparr>state_after = self1, dispatched = ns, caught = None, slept = UPDATE_INTERVAL\<rparr>
      | Inl (e, self1, ns) \<Rightarrow>
          \<lparr>state_after = self1, dispatched = ns, caught = Some e, slept = 5\<rparr>)"


text \<open>
  The seeding loop of lines 175 and 176, outside every \<^verbatim>\<open>try\<close>: an exception of one
  fetch leaves \<^verbatim>\<open>start\<close>.
\<close>

fun seed_all ::
  "externals \<Rightarrow> bot_state \<Rightarrow> (string \<times> request_env) list \<Rightarrow> (py_error \<times> bot_state) + bot_state" where
  "seed_all ext self [] = Inr self"
| "seed_all ext self ((pair, req) # items) =
     (case get_market_data ext self req pair True of
        Inl err \<Rightarrow> Inl err
      | Inr (self1, _) \<Rightarrow> seed_all ext self1 items)"

section \<open>The history as a store\<close>

text \<open>
  The two ways \<^verbatim>\<open>get_market_data\<close> writes a pair's history: a seed with the closing
  prices of a batch as the provider sends it, newest first (lines 119 and 120), and an
  append of the newest price (lines 124 to 126).
\<close>

datatype mutation = Seed "real list" | Append real

fun mutate :: "real list \<Rightarrow> mutation \<Rightarrow> real list" where
  "mutate h (Seed batch) = rev batch"
| "mutate h (Append p) = rolling_update h p"


section \<open>Example inputs\<close>

text \<open>
  Stand-ins for the library functions, for the examples below: a parser that knows a few
  price strings and one time stamp, and an oscillator that answers with the series it is
  given, whatever the prices.
\<close>

definition example_float :: "string \<Rightarrow> real option" where
  "example_float = map_of [(''1.25'', 5 / 4), (''1.50'', 3 / 2), (''0.0'', 0)]"

definition example_iso :: "string \<Rightarrow> nat option" where
  "example_iso = map_of [(''2024-01-02 10:15:00'', 1)]"

definition example_ext :: "real option list \<Rightarrow> externals" where
  "example_ext series =
     \<lparr>py_float = example_float, fromisoformat = example_iso,
      ta_rsi = (\<lambda>closes n. RsiSeries series)\<rparr>"

text \<open>Two bars, a reply that carries a list of bars, and a request answered at once.\<close>

definition example_bar :: bar where
  "example_bar = [''close'' \<mapsto> ''1.25'', ''datetime'' \<mapsto> ''2024-01-02 10:15:00'']"

definition newer_bar :: bar where
  "newer_bar = [''close'' \<mapsto> ''1.50'', ''datetime'' \<mapsto> ''2024-01-02 10:15:00'']"

definition reply_bars :: "bar list \<Rightarrow> http_outcome" where
  "reply_bars bars = Reply 200 (Some \<lparr>p_code = None, p_message = None, p_values = Some bars\<rparr>)"

definition request_at :: "real \<Rightarrow> http_outcome \<Rightarrow> request_env" where
  "request_at t out = \<lparr>t_start = t, t_response = t, outcome = out\<rparr>"

text \<open>
  Bars that lack a field, and two states after the warm-up: in the second the newest price
  of one pair is zero.
\<close>

definition no_close_bar :: bar where
  "no_close_bar = [''datetime'' \<mapsto> ''2024-01-02 10:15:00'']"

definition no_datetime_bar :: bar where
  "no_datetime_bar = [''close'' \<mapsto> ''1.25'']"

definition warm_bot :: bot_state where
  "warm_bot =
     \<lparr>price_history = [''EUR/USD'' \<mapsto> replicate 15 (5 / 4),
                        ''USD/JPY'' \<mapsto> replicate 15 (5 / 4)],
      last_api_call = 0, api_calls = 0, last_prediction = Map.empty\<rparr>"


section \<open>The detector\<close>

lemma analyze_closes_Some:
  assumes "RSI_PERIOD + 1 \<le> length close_prices"
      and "ta_rsi ext close_prices RSI_PERIOD = RsiSeries series"
      and "series \<noteq> []"
      and "close_prices ! (length close_prices - 2) \<noteq> 0"
  shows "analyze_closes ext close_prices =
           Some \<lparr>signal = classify (current_reading series) (previous_reading series),
                 price = last close_prices, rsi = current_reading series,
                 timeframe = TIMEFRAME\<rparr>"
  using assms by (simp add: analyze_closes_def price_change_def Let_def RSI_PERIOD_def)


lemma classify_CALL:
  "classify cur prev = CALL \<longleftrightarrow>
     (\<exists>c p. cur = Some c \<and> prev = Some p \<and> c \<le> 40 \<and> 40 < p)"
  by (auto simp: classify_def fle_def fgt_def fge_def flt_def RSI_OVERSOLD_def RSI_OVERBOUGHT_def
      split: option.splits)

lemma classify_PUT:
  "classify cur prev = PUT \<longleftrightarrow>
     (\<exists>c p. cur = Some c \<and> prev = Some p \<and> 50 \<le> c \<and> p < 50)"
  by (auto simp: classify_def fle_def fgt_def fge_def flt_def RSI_OVERSOLD_def RSI_OVERBOUGHT_def
      split: option.splits)

lemma classify_plateau: "classify r r = NoSignal"
  by (auto simp: classify_def fle_def fgt_def fge_def flt_def split: option.splits)

text \<open>
  Claim C6. A pair whose history holds \<^term>\<open>RSI_PERIOD\<close> entries or fewer gets the
  "insufficient data" outcome: \<^verbatim>\<open>analyze_pair\<close> returns \<^verbatim>\<open>None\<close>, with no signal
  and no exception.
\<close>

theorem analyze_pair_insufficient_data:
  assumes "price_history self pair = Some close_prices"
      and "length close_prices \<le> RSI_PERIOD"
  shows "analyze_pair ext self pair = Inr None"
  using assms by (simp add: analyze_pair_def analyze_closes_def)

theorem analyze_pair_insufficient_data_witness:
  "price_history (init_bot [''EUR/USD'']) ''EUR/USD'' = Some []
   \<and> length ([] :: real list) \<le> RSI_PERIOD
   \<and> analyze_pair (example_ext [Some 41, Some 39]) (init_bot [''EUR/USD'']) ''EUR/USD'' = Inr None"
proof -
  have h: "price_history (init_bot [''EUR/USD'']) ''EUR/USD'' = Some []"
    by (simp add: init_bot_def)
  have l: "length ([] :: real list) \<le> RSI_PERIOD"
    by simp
  from analyze_pair_insufficient_data [OF h l] h l show ?thesis
    by blast
qed

text \<open>
  Claim C1, as amended. For a history of at least \<^term>\<open>RSI_PERIOD + 1\<close> prices on which
  the oscillator answers with a series that is not empty, and whose next-to-last price is
  not zero, the detector returns an analysis. Its signal classifies the pair of the last
  two readings, each rounded to two decimals: Call when the current one is at most 40 and
  the previous one above 40, Put when the current one is at least 50 and the previous one
  below 50, and none otherwise. Equal readings, a plateau, give no signal.
\<close>

theorem analyze_closes_classifies_rounded_pair:
  assumes "RSI_PERIOD + 1 \<le> length close_prices"
      and "ta_rsi ext close_prices RSI_PERIOD = RsiSeries series"
      and "series \<noteq> []"
      and "close_prices ! (length close_prices - 2) \<noteq> 0"
  shows "\<exists>a. analyze_closes ext close_prices = Some a \<and>
           (signal a = CALL \<longleftrightarrow>
              (\<exists>c p. current_reading series = Some c \<and> previous_reading series = Some p
                 \<and> c \<le> 40 \<and> 40 < p)) \<and>
           (signal a = PUT \<longleftrightarrow>
              (\<exists>c p. current_reading series = Some c \<and> previous_reading series = Some p
                 \<and> 50 \<le> c \<and> p < 50)) \<and>
           (signal a \<noteq> CALL \<and> signal a \<noteq> PUT \<longleftrightarrow> signal a = NoSignal) \<and>
           (current_reading series = previous_reading series \<longrightarrow> signal a = NoSignal)"
proof -
  let ?a = "\<lparr>signal = classify (current_reading series) (previous_reading series),
             price = last close_prices, rsi = current_reading series, timeframe = TIMEFRAME\<rparr>"
  have a: "analyze_closes ext close_prices = Some ?a"
    using assms by (rule analyze_closes_Some)
  have third: "signal ?a \<noteq> CALL \<and> signal ?a \<noteq> PUT \<longleftrightarrow> signal ?a = NoSignal"
    by (cases "signal ?a") simp_all
  show ?thesis
    using a third by (simp add: classify_CALL classify_PUT classify_plateau)
qed

theorem analyze_closes_classifies_rounded_pair_witness:
  "RSI_PERIOD + 1 \<le> length (replicate 15 (1::real))
   \<and> ta_rsi (example_ext [Some 41, Some 39]) (replicate 15 1) RSI_PERIOD = RsiSeries [Some 41, Some 39]
   \<and> replicate 15 (1::real) ! (length (replicate 15 (1::real)) - 2) \<noteq> 0
   \<and> current_reading [Some 41, Some 39] = Some 39
   \<and> previous_reading [Some 41, Some 39] = Some 41
   \<and> map_option signal (analyze_closes (example_ext [Some 41, Some 39]) (replicate 15 1)) = Some CALL
   \<and> current_reading [Some 35, Some 35] = previous_reading [Some 35, Some 35]
   \<and> map_option signal (analyze_closes (example_ext [Some 35, Some 35]) (replicate 15 1))
       = Some NoSignal"
proof -
  have h1: "RSI_PERIOD + 1 \<le> length (replicate 15 (1::real))"
    by (simp add: RSI_PERIOD_def)
  have h2: "ta_rsi (example_ext [Some 41, Some 39]) (replicate 15 1) RSI_PERIOD = RsiSeries [Some 41, Some 39]"
    by (simp add: example_ext_def)
  have h3: "[Some 41, Some (39::real)] \<noteq> []"
    by simp
  have h4: "replicate 15 (1::real) ! (length (replicate 15 (1::real)) - 2) \<noteq> 0"
    by simp
  have c: "current_reading [Some 41, Some 39] = Some 39"
    by (simp add: current_reading_def round2_def round_half_even_def Let_def)
  have p: "previous_reading [Some 41, Some 39] = Some 41"
    by (simp add: previous_reading_def round2_def round_half_even_def Let_def)
  from analyze_closes_classifies_rounded_pair [OF h1 h2 h3 h4] c p
  have call: "map_option signal (analyze_closes (example_ext [Some 41, Some 39]) (replicate 15 1))
      = Some CALL"
    by auto
  have k2: "ta_rsi (example_ext [Some 35, Some 35]) (replicate 15 1) RSI_PERIOD
      = RsiSeries [Some 35, Some 35]"
    by (simp add: example_ext_def)
  have k3: "[Some 35, Some (35::real)] \<noteq> []"
    by simp
  have q: "current_reading [Some 35, Some 35] = previous_reading [Some 35, Some 35]"
    by (simp add: current_reading_def previous_reading_def)
  from analyze_closes_classifies_rounded_pair [OF h1 k2 k3 h4] q
  have plateau: "map_option signal (analyze_closes (example_ext [Some 35, Some 35]) (replicate 15 1))
      = Some NoSignal"
    by auto
  from h1 h2 h4 c p call q plateau show ?thesis by blast
qed

text \<open>
  The claim as stated is about the readings as the oscillator gives them and about every
  history of that length. It fails twice. A current reading of 40.004 after 41 is above
  the threshold, yet the detector rounds it to 40.00 and signals Call. And with a
  next-to-last price of zero the percentage change of line 147 divides by zero; the
  handler of line 165 turns that into no analysis at all, where the readings 41 and 39
  call for Call.
\<close>

theorem analyze_closes_raw_pair_counterexample:
  "RSI_PERIOD + 1 \<le> length (replicate 15 (1::real))
   \<and> map_option signal
       (analyze_closes (example_ext [Some 41, Some (40004 / 1000)]) (replicate 15 1)) = Some CALL
   \<and> classify (Some (40004 / 1000)) (Some 41) = NoSignal
   \<and> RSI_PERIOD + 1 \<le> length (replicate 13 (1::real) @ [0, 1])
   \<and> analyze_closes (example_ext [Some 41, Some 39]) (replicate 13 1 @ [0, 1]) = None
   \<and> classify (Some 39) (Some 41) = CALL"
  by (simp add: analyze_closes_def RSI_PERIOD_def example_ext_def current_reading_def
      previous_reading_def round2_def round_half_even_def Let_def price_change_def classify_def
      fle_def fgt_def fge_def flt_def RSI_OVERSOLD_def RSI_OVERBOUGHT_def nth_append)




section \<open>The price history\<close>

lemma price_history_api_request:
  "api_request self req = (self1, w, data) \<Longrightarrow> price_history self1 = price_history self"
  by (auto simp: api_request_def Let_def split: http_outcome.splits if_splits option.splits)

lemma last_prediction_api_request:
  "api_request self req = (self1, w, data) \<Longrightarrow> last_prediction self1 = last_prediction self"
  by (auto simp: api_request_def Let_def split: http_outcome.splits if_splits option.splits)


lemma rolling_update_drop:
  assumes "length h \<le> HISTORY_LENGTH"
  shows "rolling_update h p = drop (length h + 1 - HISTORY_LENGTH) (h @ [p])"
proof (cases "length h = HISTORY_LENGTH")
  case True
  then have k: "length h + 1 - HISTORY_LENGTH = Suc 0" by simp
  have "rolling_update h p = tl (h @ [p])"
    using True by (simp add: rolling_update_def Let_def)
  also have "\<dots> = drop (Suc 0) (h @ [p])"
    by (simp only: drop_Suc drop_0)
  finally show ?thesis by (simp only: k)
next
  case False
  with assms have k: "length h + 1 - HISTORY_LENGTH = 0" by simp
  have "rolling_update h p = h @ [p]"
    using False assms by (simp add: rolling_update_def Let_def)
  then show ?thesis by (simp only: k drop_0)
qed






lemma bar_closes_all2:
  "list_all2 (\<lambda>b c. \<exists>s. b ''close'' = Some s \<and> py_float ext s = Some c) bars closes
     \<Longrightarrow> bar_closes ext bars = Inr closes"
  by (induction rule: list_all2_induct) auto

lemma get_market_data_history:
  assumes "get_market_data ext self req pair history = Inr (self', Some d)"
  shows "\<exists>h m. price_history self pair = Some h
           \<and> price_history self' = (price_history self)(pair \<mapsto> mutate h m)
           \<and> (if history then \<exists>batch. m = Seed batch else m = Append (md_close d))"
proof -
  obtain self1 w data where ar: "api_request self req = (self1, w, data)"
    by (cases "api_request self req") auto
  have ph: "price_history self1 = price_history self"
    using ar by (rule price_history_api_request)
  show ?thesis
  proof (cases history)
    case True
    with assms ar ph obtain h closes where
      "price_history self pair = Some h"
      "price_history self' = (price_history self)(pair \<mapsto> closes)"
      by (auto simp: get_market_data_def split: option.splits list.splits sum.splits)
    moreover have "mutate h (Seed (rev closes)) = closes" by simp
    ultimately show ?thesis using True by metis
  next
    case False
    with assms ar ph show ?thesis
      by (auto simp: get_market_data_def split: option.splits list.splits sum.splits)
  qed
qed

lemma api_request_data:
  assumes "outcome req = Reply 200 (Some data)"
      and "p_code data = None \<or> p_code data = Some 200"
  shows "snd (snd (api_request self req)) = Some data"
  using assms by (auto simp: api_request_def Let_def)

lemma get_market_data_seed:
  assumes "outcome req = Reply 200 (Some data)"
      and "p_code data = None \<or> p_code data = Some 200"
      and "p_values data = Some (b # bs)"
      and "list_all2 (\<lambda>b c. \<exists>s. b ''close'' = Some s \<and> py_float ext s = Some c) (b # bs) closes"
      and "b ''datetime'' = Some ds" and "fromisoformat ext ds = Some t"
      and "price_history self pair = Some h"
  shows "\<exists>self' d. get_market_data ext self req pair True = Inr (self', Some d)
           \<and> price_history self' = (price_history self)(pair \<mapsto> rev closes)"
proof -
  obtain self1 w where ar: "api_request self req = (self1, w, Some data)"
    using api_request_data [OF assms(1,2), of self] by (cases "api_request self req") auto
  have ph: "price_history self1 = price_history self"
    using ar by (rule price_history_api_request)
  obtain c cs where closes: "closes = c # cs"
    using assms(4) by (cases closes) auto
  from assms(4) closes obtain s where b: "b ''close'' = Some s" "py_float ext s = Some c"
    by auto
  have "list_all2 (\<lambda>b c. \<exists>s. b ''close'' = Some s \<and> py_float ext s = Some c)
          (rev (b # bs)) (rev closes)"
    using assms(4) by (simp only: list_all2_rev)
  then have bc: "bar_closes ext (rev (b # bs)) = Inr (rev closes)"
    by (rule bar_closes_all2)
  have "get_market_data ext self req pair True
          = Inr (self1\<lparr>price_history := (price_history self1)(pair \<mapsto> rev closes)\<rparr>,
                 Some \<lparr>md_close = c, md_pair = pair, md_timestamp = t\<rparr>)"
    unfolding get_market_data_def using ar assms(3,5,6,7) b bc ph
    by simp
  then show ?thesis using ph by simp
qed

lemma closes_replicate:
  assumes "b ''close'' = Some s" and "py_float ext s = Some c"
  shows "list_all2 (\<lambda>b c. \<exists>s. b ''close'' = Some s \<and> py_float ext s = Some c)
           (replicate n b) (replicate n c)"
  using assms by (induction n) simp_all





text \<open>
  Claim C7. When the provider answers the seeding request with a batch of
  \<^term>\<open>HISTORY_LENGTH\<close> bars, newest first, each with a closing price that parses and the
  newest with a time stamp that parses, \<^verbatim>\<open>get_market_data\<close> stores for the pair the
  closing prices of the batch in reversed order, oldest first, and they are exactly 100.
\<close>

theorem seeding_stores_reversed_closes:
  assumes "outcome req = Reply 200 (Some data)"
      and "p_code data = None \<or> p_code data = Some 200"
      and "p_values data = Some bars"
      and "length bars = HISTORY_LENGTH"
      and "list_all2 (\<lambda>b c. \<exists>s. b ''close'' = Some s \<and> py_float ext s = Some c) bars closes"
      and "\<exists>s t. hd bars ''datetime'' = Some s \<and> fromisoformat ext s = Some t"
      and "price_history self pair = Some h"
  shows "\<exists>self' d. get_market_data ext self req pair True = Inr (self', Some d)
           \<and> price_history self' pair = Some (rev closes)
           \<and> length (rev closes) = 100"
proof -
  have len: "length closes = 100"
    using list_all2_lengthD [OF assms(5)] assms(4) by (simp add: HISTORY_LENGTH_def)
  obtain b bs where bars: "bars = b # bs"
    using assms(4) by (cases bars) (auto simp: HISTORY_LENGTH_def)
  from assms(6) bars obtain ds t where d: "b ''datetime'' = Some ds" "fromisoformat ext ds = Some t"
    by auto
  from get_market_data_seed [OF assms(1,2) assms(3) [unfolded bars] assms(5) [unfolded bars] d assms(7)]
  obtain self' d where "get_market_data ext self req pair True = Inr (self', Some d)"
    and "price_history self' = (price_history self)(pair \<mapsto> rev closes)"
    by blast
  then show ?thesis using len by auto
qed

theorem seeding_stores_reversed_closes_witness:
  "outcome (request_at 0 (reply_bars (newer_bar # replicate 99 example_bar)))
     = Reply 200 (Some \<lparr>p_code = None, p_message = None,
                        p_values = Some (newer_bar # replicate 99 example_bar)\<rparr>)
   \<and> length (newer_bar # replicate 99 example_bar) = HISTORY_LENGTH
   \<and> price_history (init_bot [''EUR/USD'']) ''EUR/USD'' = Some []
   \<and> (case get_market_data (example_ext []) (init_bot [''EUR/USD''])
           (request_at 0 (reply_bars (newer_bar # replicate 99 example_bar))) ''EUR/USD'' True of
        Inl _ \<Rightarrow> None
      | Inr (self', _) \<Rightarrow> price_history self' ''EUR/USD'')
       = Some (replicate 99 (5 / 4) @ [3 / 2])"
proof -
  let ?bars = "newer_bar # replicate 99 example_bar"
  let ?data = "\<lparr>p_code = None, p_message = None, p_values = Some ?bars\<rparr>"
  let ?req = "request_at 0 (reply_bars ?bars)"
  let ?closes = "(3 / 2) # replicate 99 (5 / 4 :: real)"
  let ?ext = "example_ext []"
  have o: "outcome ?req = Reply 200 (Some ?data)"
    by (simp add: request_at_def reply_bars_def)
  have c: "p_code ?data = None \<or> p_code ?data = Some 200" by simp
  have v: "p_values ?data = Some ?bars" by simp
  have l: "length ?bars = HISTORY_LENGTH" by (simp add: HISTORY_LENGTH_def)
  have p: "list_all2 (\<lambda>b c. \<exists>s. b ''close'' = Some s \<and> py_float ?ext s = Some c)
          (replicate 99 example_bar) (replicate 99 (5 / 4))"
    by (rule closes_replicate [where s = "''1.25''"])
       (simp_all add: example_bar_def example_ext_def example_float_def)
  have q: "\<exists>s. newer_bar ''close'' = Some s \<and> py_float ?ext s = Some (3 / 2)"
    by (simp add: newer_bar_def example_ext_def example_float_def)
  have a: "list_all2 (\<lambda>b c. \<exists>s. b ''close'' = Some s \<and> py_float ?ext s = Some c) ?bars ?closes"
    using q p by simp
  have d: "\<exists>s t. hd ?bars ''datetime'' = Some s \<and> fromisoformat ?ext s = Some t"
    by (simp add: newer_bar_def example_ext_def example_iso_def)
  have h: "price_history (init_bot [''EUR/USD'']) ''EUR/USD'' = Some []"
    by (simp add: init_bot_def)
  from seeding_stores_reversed_closes [OF o c v l a d h]
  have "(case get_market_data ?ext (init_bot [''EUR/USD'']) ?req ''EUR/USD'' True of
        Inl _ \<Rightarrow> None
      | Inr (self', _) \<Rightarrow> price_history self' ''EUR/USD'')
       = Some (replicate 99 (5 / 4) @ [3 / 2])"
    by auto
  with o l h show ?thesis by blast
qed


section \<open>The rate limiter\<close>

lemma api_request_wait:
  "fst (snd (api_request self req)) = wait_time self (t_start req)"
  by (simp add: api_request_def Let_def split: http_outcome.splits option.splits)

lemma api_request_calls:
  "api_calls (fst (api_request self req))
     = (if throttled self (t_start req) then 0 else api_calls self)
       + (if answered req then 1 else 0)"
  by (simp add: api_request_def answered_def Let_def split: http_outcome.splits option.splits)

lemma api_request_last_call:
  "last_api_call (fst (api_request self req))
     = (if answered req then t_response req else last_api_call self)"
  by (simp add: api_request_def answered_def Let_def split: http_outcome.splits option.splits)

lemma api_request_data_independent:
  "snd (snd (api_request self req)) = snd (snd (api_request self' req))"
  by (simp add: api_request_def Let_def split: http_outcome.splits option.splits)

lemma api_requests_below_quota:
  assumes "api_calls self + length reqs \<le> RATE_LIMIT"
      and "\<forall>r\<in>set reqs. answered r"
  shows "snd (api_requests self reqs) = replicate (length reqs) 0
       \<and> api_calls (fst (api_requests self reqs)) = api_calls self + length reqs
       \<and> last_api_call (fst (api_requests self reqs))
           = (if reqs = [] then last_api_call self else t_response (last reqs))"
  using assms
proof (induction reqs arbitrary: self)
  case Nil
  show ?case by simp
next
  case (Cons r reqs)
  obtain self1 w d where ar: "api_request self r = (self1, w, d)"
    by (cases "api_request self r") auto
  have nt: "\<not> throttled self (t_start r)"
    using Cons.prems(1) by (simp add: throttled_def)
  have w: "w = 0"
    using api_request_wait [of self r] ar nt by (simp add: wait_time_def)
  have c: "api_calls self1 = api_calls self + 1"
    using api_request_calls [of self r] ar nt Cons.prems(2) by simp
  have l: "last_api_call self1 = t_response r"
    using api_request_last_call [of self r] ar Cons.prems(2) by simp
  have "api_calls self1 + length reqs \<le> RATE_LIMIT"
    using Cons.prems(1) c by simp
  moreover have "\<forall>r\<in>set reqs. answered r"
    using Cons.prems(2) by simp
  ultimately have IH: "snd (api_requests self1 reqs) = replicate (length reqs) 0
       \<and> api_calls (fst (api_requests self1 reqs)) = api_calls self1 + length reqs
       \<and> last_api_call (fst (api_requests self1 reqs))
           = (if reqs = [] then last_api_call self1 else t_response (last reqs))"
    by (rule Cons.IH)
  obtain self2 ws where rest: "api_requests self1 reqs = (self2, ws)"
    by (cases "api_requests self1 reqs") auto
  show ?case
    using IH ar w c l rest by (simp split: prod.splits)
qed

lemma api_requests_append:
  "api_requests self (xs @ ys)
     = (case api_requests self xs of
          (self1, ws) \<Rightarrow> (case api_requests self1 ys of (self2, vs) \<Rightarrow> (self2, ws @ vs)))"
  by (induction xs arbitrary: self) (simp_all split: prod.splits)

lemma api_request_at:
  "api_request \<lparr>price_history = ph, last_api_call = l, api_calls = n, last_prediction = lp\<rparr>
       (request_at t (reply_bars bars))
     = (\<lparr>price_history = ph, last_api_call = t,
         api_calls = (if t - l < 60 \<and> RATE_LIMIT \<le> n then 0 else n) + 1,
         last_prediction = lp\<rparr>,
        (if t - l < 60 \<and> RATE_LIMIT \<le> n then 60 - (t - l) else 0),
        Some \<lparr>p_code = None, p_message = None, p_values = Some bars\<rparr>)"
  by (simp add: api_request_def request_at_def reply_bars_def wait_time_def throttled_def Let_def)

text \<open>
  Claim C2, as amended. The limiter keeps the time of the last answered request and a
  count of calls. A request made less than 60 seconds after the last answered one, with
  the count at the quota or above, sleeps until 60 seconds after that last answered
  request, and only then is the count set back to 0; any other request is issued at once
  and the count is left as it is, however long ago the counting began. The data a request
  returns does not depend on the limiter's state: a request is delayed, never dropped. From
  a count of 0, a quota of answered requests is issued without delay, and the next one,
  made less than 60 seconds after the last of them was answered, sleeps until 60 seconds
  after that answer.
\<close>

theorem rate_limiter_waits_after_last_call:
  "fst (snd (api_request self req))
      = (if t_start req - last_api_call self < 60 \<and> RATE_LIMIT \<le> api_calls self
         then last_api_call self + 60 - t_start req else 0)
   \<and> api_calls (fst (api_request self req))
      = (if t_start req - last_api_call self < 60 \<and> RATE_LIMIT \<le> api_calls self
         then 0 else api_calls self) + (if answered req then 1 else 0)
   \<and> snd (snd (api_request self req)) = snd (snd (api_request self' req))
   \<and> (api_calls self = 0 \<and> length reqs = RATE_LIMIT \<and> (\<forall>r\<in>set reqs. answered r)
        \<and> t_start req - t_response (last reqs) < 60
      \<longrightarrow> snd (api_requests self (reqs @ [req]))
            = replicate RATE_LIMIT 0 @ [t_response (last reqs) + 60 - t_start req])"
proof (intro conjI impI)
  show "fst (snd (api_request self req))
      = (if t_start req - last_api_call self < 60 \<and> RATE_LIMIT \<le> api_calls self
         then last_api_call self + 60 - t_start req else 0)"
    by (simp add: api_request_wait wait_time_def throttled_def)
  show "api_calls (fst (api_request self req))
      = (if t_start req - last_api_call self < 60 \<and> RATE_LIMIT \<le> api_calls self
         then 0 else api_calls self) + (if answered req then 1 else 0)"
    by (simp add: api_request_calls throttled_def)
  show "snd (snd (api_request self req)) = snd (snd (api_request self' req))"
    by (rule api_request_data_independent)
next
  assume a: "api_calls self = 0 \<and> length reqs = RATE_LIMIT \<and> (\<forall>r\<in>set reqs. answered r)
        \<and> t_start req - t_response (last reqs) < 60"
  then have ne: "reqs \<noteq> []" by (auto simp: RATE_LIMIT_def)
  have "api_calls self + length reqs \<le> RATE_LIMIT" using a by simp
  moreover have "\<forall>r\<in>set reqs. answered r" using a by simp
  ultimately have run: "snd (api_requests self reqs) = replicate (length reqs) 0
       \<and> api_calls (fst (api_requests self reqs)) = api_calls self + length reqs
       \<and> last_api_call (fst (api_requests self reqs))
           = (if reqs = [] then last_api_call self else t_response (last reqs))"
    by (rule api_requests_below_quota)
  let ?s = "fst (api_requests self reqs)"
  have th: "throttled ?s (t_start req)"
    using run a ne by (simp add: throttled_def)
  obtain s1 ws where r1: "api_requests self reqs = (s1, ws)"
    by (cases "api_requests self reqs") auto
  obtain s2 w d where r2: "api_request s1 req = (s2, w, d)"
    by (cases "api_request s1 req") auto
  have "fst (snd (api_request ?s req)) = t_response (last reqs) + 60 - t_start req"
    using th run ne by (simp add: api_request_wait wait_time_def)
  then have "w = t_response (last reqs) + 60 - t_start req"
    using r1 r2 by simp
  moreover have "ws = replicate RATE_LIMIT 0"
    using run a r1 by simp
  ultimately show "snd (api_requests self (reqs @ [req]))
            = replicate RATE_LIMIT 0 @ [t_response (last reqs) + 60 - t_start req]"
    using r1 r2 by (simp add: api_requests_append)
qed

theorem rate_limiter_waits_after_last_call_witness:
  "api_calls (init_bot []) = 0
   \<and> length (map (\<lambda>t. request_at t (reply_bars [])) [0, 10, 20, 30, 40, 50]) = RATE_LIMIT
   \<and> t_start (request_at 55 (reply_bars []))
        - t_response (last (map (\<lambda>t. request_at t (reply_bars [])) [0, 10, 20, 30, 40, 50])) < 60
   \<and> snd (api_requests (init_bot [])
            (map (\<lambda>t. request_at t (reply_bars [])) [0, 10, 20, 30, 40, 50]
              @ [request_at 55 (reply_bars [])]))
       = replicate RATE_LIMIT 0 @ [55]"
proof -
  let ?reqs = "map (\<lambda>t. request_at t (reply_bars [])) [0, 10, 20, 30, 40, 50]"
  let ?req = "request_at 55 (reply_bars [])"
  have h1: "api_calls (init_bot []) = 0" by (simp add: init_bot_def)
  have h2: "length ?reqs = RATE_LIMIT" by (simp add: RATE_LIMIT_def)
  have h3: "\<forall>r\<in>set ?reqs. answered r"
    by (simp add: answered_def request_at_def reply_bars_def)
  have h4: "t_start ?req - t_response (last ?reqs) < 60"
    by (simp add: request_at_def)
  have l: "t_response (last ?reqs) + 60 - t_start ?req = 55"
    by (simp add: request_at_def)
  from rate_limiter_waits_after_last_call [of "init_bot []" ?req "init_bot []" ?reqs] h1 h2 h3 h4
  have "snd (api_requests (init_bot []) (?reqs @ [?req]))
          = replicate RATE_LIMIT 0 @ [t_response (last ?reqs) + 60 - t_start ?req]"
    by blast
  then have "snd (api_requests (init_bot []) (?reqs @ [?req])) = replicate RATE_LIMIT 0 @ [55]"
    by (simp only: l)
  with h1 h2 h4 show ?thesis by blast
qed

text \<open>
  The claim as stated has the seventh request of a window wait until the window's start
  plus 60 seconds, and the count reset once 60 seconds have passed. With requests answered
  at seconds 0, 10, 20, 30, 40 and 50, the seventh, made at second 55, sleeps 55 seconds,
  until second 110 and not second 60. With six requests answered by second 5, the request
  of second 100 is issued with the count going to 7, and the one of second 101 then
  sleeps 59 seconds.
\<close>

theorem rate_limiter_window_counterexample:
  "snd (api_requests (init_bot [])
          (map (\<lambda>t. request_at t (reply_bars [])) [0, 10, 20, 30, 40, 50, 55]))
     = [0, 0, 0, 0, 0, 0, 55]
   \<and> (55::real) + 55 \<noteq> 0 + 60
   \<and> api_calls (fst (api_requests (init_bot [])
          (map (\<lambda>t. request_at t (reply_bars [])) [0, 1, 2, 3, 4, 5, 100]))) = 7
   \<and> snd (api_requests (init_bot [])
          (map (\<lambda>t. request_at t (reply_bars [])) [0, 1, 2, 3, 4, 5, 100, 101]))
     = [0, 0, 0, 0, 0, 0, 0, 59]"
  by (simp add: api_request_at init_bot_def RATE_LIMIT_def)


section \<open>The cycle\<close>

lemma cycle_Nil:
  "cycle ext self [] = \<lparr>state_after = self, dispatched = [], caught = None, slept = UPDATE_INTERVAL\<rparr>"
  by (simp add: cycle_def)

lemma cycle_Cons:
  "cycle ext self (item # items)
     = (case process_pair ext self item of
          Inl (e, self1) \<Rightarrow> \<lparr>state_after = self1, dispatched = [], caught = Some e, slept = 5\<rparr>
        | Inr (self1, ns) \<Rightarrow>
            (cycle ext self1 items)\<lparr>dispatched := ns @ dispatched (cycle ext self1 items)\<rparr>)"
  by (simp add: cycle_def split: sum.splits prod.splits)

lemma cycle_append_caught:
  "caught (cycle ext self xs) = Some e \<Longrightarrow> cycle ext self (xs @ ys) = cycle ext self xs"
proof (induction xs arbitrary: self)
  case Nil
  then show ?case by (simp add: cycle_Nil)
next
  case (Cons x xs)
  show ?case
  proof (cases "process_pair ext self x")
    case (Inl err)
    then show ?thesis by (simp add: cycle_Cons split: prod.splits)
  next
    case (Inr ok)
    then obtain self1 ns where ok: "process_pair ext self x = Inr (self1, ns)"
      by (cases ok) auto
    with Cons.prems have "caught (cycle ext self1 xs) = Some e"
      by (simp add: cycle_Cons)
    then have "cycle ext self1 (xs @ ys) = cycle ext self1 xs"
      by (rule Cons.IH)
    with ok show ?thesis by (simp add: cycle_Cons)
  qed
qed

lemma cycle_append:
  assumes "caught (cycle ext self xs) = None"
  shows "cycle ext self (xs @ ys)
           = (cycle ext (state_after (cycle ext self xs)) ys)
               \<lparr>dispatched := dispatched (cycle ext self xs)
                  @ dispatched (cycle ext (state_after (cycle ext self xs)) ys)\<rparr>"
  using assms
proof (induction xs arbitrary: self)
  case Nil
  then show ?case by (simp add: cycle_Nil)
next
  case (Cons x xs)
  show ?case
  proof (cases "process_pair ext self x")
    case (Inl err)
    with Cons.prems show ?thesis by (simp add: cycle_Cons split: prod.splits)
  next
    case (Inr ok)
    then obtain self1 ns where ok: "process_pair ext self x = Inr (self1, ns)"
      by (cases ok) auto
    with Cons.prems have "caught (cycle ext self1 xs) = None"
      by (simp add: cycle_Cons)
    then have "cycle ext self1 (xs @ ys)
           = (cycle ext (state_after (cycle ext self1 xs)) ys)
               \<lparr>dispatched := dispatched (cycle ext self1 xs)
                  @ dispatched (cycle ext (state_after (cycle ext self1 xs)) ys)\<rparr>"
      by (rule Cons.IH)
    with ok show ?thesis by (simp add: cycle_Cons)
  qed
qed

lemma process_pair_raises:
  "process_pair ext self (pair, req) = Inl err
     \<longleftrightarrow> get_market_data ext self req pair False = Inl err"
proof -
  have known: "price_history self1 pair \<noteq> None"
    if "get_market_data ext self req pair False = Inr (self1, Some d)" for self1 d
    using get_market_data_history [OF that] by auto
  show ?thesis
    by (auto simp: process_pair_def analyze_pair_def split: sum.splits option.splits dest: known)
qed

lemma process_pair_no_data:
  assumes "api_request self req = (self1, w, data)"
      and "data = None \<or> (\<exists>d. data = Some d \<and> p_values d = None)"
  shows "process_pair ext self (pair, req) = Inr (self1, [])"
  using assms by (auto simp: process_pair_def get_market_data_def)

lemma process_pair_notifies:
  assumes "get_market_data ext self req pair False = Inr (self1, Some d)"
      and "analyze_pair ext self1 pair = Inr (Some a)"
  shows "\<exists>self2. process_pair ext self (pair, req) = Inr (self2, [send_signal a pair])"
  using assms by (simp add: process_pair_def)

lemma get_market_data_frame:
  assumes "q \<noteq> pair"
  shows "get_market_data ext self req pair history = Inr (self1, md)
           \<Longrightarrow> price_history self1 q = price_history self q"
    and "get_market_data ext self req pair history = Inl (e, self1)
           \<Longrightarrow> price_history self1 q = price_history self q"
proof -
  obtain s w data where ar: "api_request self req = (s, w, data)"
    by (cases "api_request self req") auto
  have ph: "price_history s = price_history self"
    using ar by (rule price_history_api_request)
  show "get_market_data ext self req pair history = Inr (self1, md)
           \<Longrightarrow> price_history self1 q = price_history self q"
    using ar ph assms
    by (auto simp: get_market_data_def split: option.splits list.splits sum.splits if_splits)
  show "get_market_data ext self req pair history = Inl (e, self1)
           \<Longrightarrow> price_history self1 q = price_history self q"
    using ar ph assms
    by (auto simp: get_market_data_def split: option.splits list.splits sum.splits if_splits)
qed

lemma process_pair_frame:
  assumes "q \<noteq> pair"
  shows "process_pair ext self (pair, req) = Inr (self1, ns)
           \<Longrightarrow> price_history self1 q = price_history self q \<and> (\<forall>n\<in>set ns. subject n \<noteq> q)"
    and "process_pair ext self (pair, req) = Inl (e, self1)
           \<Longrightarrow> price_history self1 q = price_history self q"
proof -
  show "process_pair ext self (pair, req) = Inl (e, self1)
           \<Longrightarrow> price_history self1 q = price_history self q"
    using get_market_data_frame(2) [OF assms] by (simp add: process_pair_raises)
  show "process_pair ext self (pair, req) = Inr (self1, ns)
           \<Longrightarrow> price_history self1 q = price_history self q \<and> (\<forall>n\<in>set ns. subject n \<noteq> q)"
    using get_market_data_frame(1) [OF assms, of ext self req False] assms
    by (auto simp: process_pair_def send_signal_def split: sum.splits option.splits if_splits)
qed

lemma cycle_frame:
  assumes "q \<notin> fst ` set items"
  shows "price_history (state_after (cycle ext self items)) q = price_history self q
       \<and> (\<forall>n\<in>set (dispatched (cycle ext self items)). subject n \<noteq> q)"
  using assms
proof (induction items arbitrary: self)
  case Nil
  show ?case by (simp add: cycle_Nil)
next
  case (Cons item items)
  obtain pair req where item: "item = (pair, req)" by (cases item)
  with Cons.prems have ne: "q \<noteq> pair" and rest: "q \<notin> fst ` set items" by auto
  show ?case
  proof (cases "process_pair ext self item")
    case (Inl err)
    then obtain e self1 where "process_pair ext self (pair, req) = Inl (e, self1)"
      using item by (cases err) auto
    with process_pair_frame(2) [OF ne this] show ?thesis
      by (simp add: cycle_Cons item)
  next
    case (Inr ok)
    then obtain self1 ns where ok: "process_pair ext self (pair, req) = Inr (self1, ns)"
      using item by (cases ok) auto
    from process_pair_frame(1) [OF ne ok] Cons.IH [OF rest, of self1] ok
    show ?thesis by (auto simp: cycle_Cons item)
  qed
qed



lemma process_pair_example:
  "process_pair (example_ext [Some 55, Some 45])
       \<lparr>price_history = [''EUR/USD'' \<mapsto> replicate 15 (5 / 4),
                          ''USD/JPY'' \<mapsto> replicate 15 (5 / 4)],
        last_api_call = l, api_calls = 1, last_prediction = Map.empty\<rparr>
       (''USD/JPY'', request_at 8 (reply_bars [example_bar]))
     = Inr (\<lparr>price_history = [''EUR/USD'' \<mapsto> replicate 15 (5 / 4),
                                ''USD/JPY'' \<mapsto> replicate 15 (5 / 4) @ [5 / 4]],
             last_api_call = 8, api_calls = 2, last_prediction = Map.empty\<rparr>,
            [NoOpportunity ''USD/JPY'' (Some 45) (5 / 4)])"
proof -
  let ?h = "replicate 15 (5 / 4 :: real) @ [5 / 4]"
  let ?s1 = "\<lparr>price_history = [''EUR/USD'' \<mapsto> replicate 15 (5 / 4), ''USD/JPY'' \<mapsto> ?h],
             last_api_call = 8, api_calls = 2, last_prediction = Map.empty\<rparr>"
  have g: "get_market_data (example_ext [Some 55, Some 45])
       \<lparr>price_history = [''EUR/USD'' \<mapsto> replicate 15 (5 / 4),
                          ''USD/JPY'' \<mapsto> replicate 15 (5 / 4)],
        last_api_call = l, api_calls = 1, last_prediction = Map.empty\<rparr>
       (request_at 8 (reply_bars [example_bar])) ''USD/JPY'' False
     = Inr (?s1, Some \<lparr>md_close = 5 / 4, md_pair = ''USD/JPY'', md_timestamp = 1\<rparr>)"
    by (simp add: get_market_data_def api_request_at example_bar_def example_ext_def
        example_float_def example_iso_def rolling_update_def HISTORY_LENGTH_def RATE_LIMIT_def)
  have a: "analyze_closes (example_ext [Some 55, Some 45]) ?h
     = Some \<lparr>signal = NoSignal, price = 5 / 4, rsi = Some 45, timeframe = TIMEFRAME\<rparr>"
    by (simp add: analyze_closes_def RSI_PERIOD_def example_ext_def current_reading_def
        previous_reading_def round2_def round_half_even_def Let_def price_change_def classify_def
        fle_def fgt_def fge_def flt_def RSI_OVERSOLD_def RSI_OVERBOUGHT_def nth_append)
  have ap: "analyze_pair (example_ext [Some 55, Some 45]) ?s1 ''USD/JPY''
     = Inr (Some \<lparr>signal = NoSignal, price = 5 / 4, rsi = Some 45, timeframe = TIMEFRAME\<rparr>)"
    using a by (simp add: analyze_pair_def)
  show ?thesis
    using g ap by (simp add: process_pair_def send_signal_def)
qed

lemma handled_failures_return_None:
  assumes "outcome req = TimedOut \<or> outcome req = NetworkError
           \<or> (\<exists>status body. outcome req = Reply status body
                \<and> (status \<noteq> 200 \<or> body = None
                    \<or> (\<exists>d. body = Some d
                         \<and> ((\<exists>c. p_code d = Some c \<and> c \<noteq> 200) \<or> p_values d = None))))"
  shows "\<exists>self1. get_market_data ext self req pair history = Inr (self1, None)"
  using assms
  by (auto simp: get_market_data_def api_request_def Let_def split: option.splits)

text \<open>
  Claim C4. A fetch that fails returns \<^verbatim>\<open>None\<close> and raises nothing: that holds for a
  time-out, a network error, a status other than 200, a body that does not decode, an
  error code in the body and a body without \<^verbatim>\<open>values\<close>, as
  \<open>handled_failures_return_None\<close> shows. It does not hold for a bar without its
  \<^verbatim>\<open>close\<close> or its \<^verbatim>\<open>datetime\<close> field: lines 114 and 115 index the bar outside
  every \<^verbatim>\<open>try\<close>, and the \<^verbatim>\<open>KeyError\<close> leaves \<^verbatim>\<open>get_market_data\<close>. In the seeding loop
  it leaves \<^verbatim>\<open>start\<close> as well.
\<close>

theorem malformed_bar_raises:
  "get_market_data (example_ext []) warm_bot
       (request_at 7 (reply_bars [no_close_bar])) ''EUR/USD'' False
     = Inl (KeyError, warm_bot\<lparr>last_api_call := 7, api_calls := 1\<rparr>)
   \<and> get_market_data (example_ext []) warm_bot
       (request_at 7 (reply_bars [no_datetime_bar])) ''EUR/USD'' False
     = Inl (KeyError, warm_bot\<lparr>last_api_call := 7, api_calls := 1\<rparr>)
   \<and> seed_all (example_ext []) (init_bot [''EUR/USD''])
       [(''EUR/USD'', request_at 7 (reply_bars [no_close_bar]))]
     = Inl (KeyError, (init_bot [''EUR/USD''])\<lparr>last_api_call := 7, api_calls := 1\<rparr>)"
  by (simp add: get_market_data_def warm_bot_def init_bot_def api_request_at no_close_bar_def
      no_datetime_bar_def example_ext_def example_float_def RATE_LIMIT_def)




text \<open>
  Claim C9. In a cycle that reaches a pair, when the fetch of the pair returns data and
  its analysis returns a result, exactly one message is dispatched for the pair in that
  cycle, after those of the pairs before it and before those of the pairs after it. With
  no signal it is the "No Trading Opportunity" message, otherwise the alert.
\<close>

theorem notification_for_every_analysed_pair:
  assumes "caught (cycle ext self pre) = None"
      and "get_market_data ext (state_after (cycle ext self pre)) req pair False = Inr (self1, Some d)"
      and "analyze_pair ext self1 pair = Inr (Some a)"
  shows "dispatched (cycle ext self (pre @ [(pair, req)]))
           = dispatched (cycle ext self pre) @ [send_signal a pair]
       \<and> dispatched (cycle ext self (pre @ (pair, req) # post))
           = dispatched (cycle ext self pre) @ send_signal a pair
               # dispatched (cycle ext (state_after (cycle ext self (pre @ [(pair, req)]))) post)
       \<and> subject (send_signal a pair) = pair
       \<and> (signal a = NoSignal \<longrightarrow> send_signal a pair = NoOpportunity pair (rsi a) (price a))
       \<and> (signal a \<noteq> NoSignal \<longrightarrow>
            send_signal a pair = SignalAlert (signal a) pair (rsi a) (price a) (timeframe a))"
proof -
  let ?s = "state_after (cycle ext self pre)"
  from process_pair_notifies [OF assms(2,3)]
  obtain self2 where pp: "process_pair ext ?s (pair, req) = Inr (self2, [send_signal a pair])"
    by blast
  have one: "cycle ext self (pre @ [(pair, req)])
      = \<lparr>state_after = self2, dispatched = dispatched (cycle ext self pre) @ [send_signal a pair],
         caught = None, slept = UPDATE_INTERVAL\<rparr>"
    using assms(1) pp by (simp add: cycle_append cycle_Cons cycle_Nil)
  have more: "cycle ext self (pre @ (pair, req) # post)
      = (cycle ext self2 post)\<lparr>dispatched := dispatched (cycle ext self pre)
           @ send_signal a pair # dispatched (cycle ext self2 post)\<rparr>"
    using assms(1) pp by (simp add: cycle_append cycle_Cons)
  show ?thesis
    by (simp add: one more send_signal_def)
qed

theorem notification_for_every_analysed_pair_witness:
  "caught (cycle (example_ext [Some 55, Some 45]) warm_bot []) = None
   \<and> analyze_pair (example_ext [Some 55, Some 45])
        (warm_bot\<lparr>price_history := (price_history warm_bot)
            (''USD/JPY'' \<mapsto> replicate 15 (5 / 4) @ [5 / 4]),
          last_api_call := 8, api_calls := 2\<rparr>) ''USD/JPY''
       = Inr (Some \<lparr>signal = NoSignal, price = 5 / 4, rsi = Some 45, timeframe = TIMEFRAME\<rparr>)
   \<and> dispatched (cycle (example_ext [Some 55, Some 45]) (warm_bot\<lparr>api_calls := 1\<rparr>)
        [(''USD/JPY'', request_at 8 (reply_bars [example_bar]))])
       = [NoOpportunity ''USD/JPY'' (Some 45) (5 / 4)]"
proof -
  let ?ext = "example_ext [Some 55, Some 45]"
  let ?h = "replicate 15 (5 / 4 :: real) @ [5 / 4]"
  let ?a = "\<lparr>signal = NoSignal, price = 5 / 4, rsi = Some 45, timeframe = TIMEFRAME\<rparr>"
  let ?s0 = "warm_bot\<lparr>api_calls := 1\<rparr>"
  let ?s1 = "warm_bot\<lparr>price_history := (price_history warm_bot)(''USD/JPY'' \<mapsto> ?h),
          last_api_call := 8, api_calls := 2\<rparr>"
  let ?req = "request_at 8 (reply_bars [example_bar])"
  have n: "cycle ?ext ?s0 [] =
      \<lparr>state_after = ?s0, dispatched = [], caught = None, slept = UPDATE_INTERVAL\<rparr>"
    by (rule cycle_Nil)
  have h1: "caught (cycle ?ext ?s0 []) = None" by (simp add: cycle_Nil)
  have h2: "get_market_data ?ext (state_after (cycle ?ext ?s0 [])) ?req ''USD/JPY'' False
     = Inr (?s1, Some \<lparr>md_close = 5 / 4, md_pair = ''USD/JPY'', md_timestamp = 1\<rparr>)"
    by (simp add: cycle_Nil get_market_data_def warm_bot_def api_request_at example_bar_def example_ext_def
        example_float_def example_iso_def rolling_update_def HISTORY_LENGTH_def RATE_LIMIT_def)
  have a: "analyze_closes ?ext ?h = Some ?a"
    by (simp add: analyze_closes_def RSI_PERIOD_def example_ext_def current_reading_def
        previous_reading_def round2_def round_half_even_def Let_def price_change_def classify_def
        fle_def fgt_def fge_def flt_def RSI_OVERSOLD_def RSI_OVERBOUGHT_def nth_append)
  have h3: "analyze_pair ?ext ?s1 ''USD/JPY'' = Inr (Some ?a)"
    using a by (simp add: analyze_pair_def)
  from notification_for_every_analysed_pair [OF h1 h2 h3, of "[]"]
  have "dispatched (cycle ?ext ?s0 [(''USD/JPY'', ?req)])
       = [NoOpportunity ''USD/JPY'' (Some 45) (5 / 4)]"
    by (simp add: cycle_Nil)
  moreover have "caught (cycle ?ext warm_bot []) = None"
    by (simp add: cycle_Nil)
  ultimately show ?thesis using h3 by blast
qed

text \<open>
  Claim C10. In a cycle that reaches a pair, when the request of the pair returns no data
  or a body without \<^verbatim>\<open>values\<close>, the cycle goes on with no message and no exception
  for the pair, and neither the price histories nor the last predictions change. When the
  pair does not come again in the cycle, its history at the end of the cycle is the one it
  had when its turn came, and no later message of the cycle is about it.
\<close>

theorem failed_fetch_skips_pair:
  assumes "caught (cycle ext self pre) = None"
      and "api_request (state_after (cycle ext self pre)) req = (self1, w, data)"
      and "data = None \<or> (\<exists>d. data = Some d \<and> p_values d = None)"
  shows "cycle ext self (pre @ [(pair, req)])
           = \<lparr>state_after = self1, dispatched = dispatched (cycle ext self pre),
              caught = None, slept = UPDATE_INTERVAL\<rparr>
       \<and> price_history self1 = price_history (state_after (cycle ext self pre))
       \<and> last_prediction self1 = last_prediction (state_after (cycle ext self pre))
       \<and> dispatched (cycle ext self (pre @ (pair, req) # post))
           = dispatched (cycle ext self pre) @ dispatched (cycle ext self1 post)
       \<and> (pair \<notin> fst ` set post \<longrightarrow>
            price_history (state_after (cycle ext self (pre @ (pair, req) # post))) pair
              = price_history (state_after (cycle ext self pre)) pair
            \<and> (\<forall>n\<in>set (dispatched (cycle ext self1 post)). subject n \<noteq> pair))"
proof -
  let ?s = "state_after (cycle ext self pre)"
  have pp: "process_pair ext ?s (pair, req) = Inr (self1, [])"
    using assms(2,3) by (rule process_pair_no_data)
  have ph: "price_history self1 = price_history ?s"
    using assms(2) by (rule price_history_api_request)
  have lp: "last_prediction self1 = last_prediction ?s"
    using assms(2) by (rule last_prediction_api_request)
  have one: "cycle ext self (pre @ [(pair, req)])
           = \<lparr>state_after = self1, dispatched = dispatched (cycle ext self pre),
              caught = None, slept = UPDATE_INTERVAL\<rparr>"
    using assms(1) pp by (simp add: cycle_append cycle_Cons cycle_Nil)
  have more: "cycle ext self (pre @ (pair, req) # post)
      = (cycle ext self1 post)\<lparr>dispatched := dispatched (cycle ext self pre)
           @ dispatched (cycle ext self1 post)\<rparr>"
    using assms(1) pp by (simp add: cycle_append cycle_Cons)
  have frame: "price_history (state_after (cycle ext self1 post)) pair = price_history self1 pair
       \<and> (\<forall>n\<in>set (dispatched (cycle ext self1 post)). subject n \<noteq> pair)"
    if "pair \<notin> fst ` set post"
    using that by (rule cycle_frame)
  show ?thesis
    using frame by (simp add: one more ph lp)
qed


theorem failed_fetch_skips_pair_witness:
  "caught (cycle (example_ext [Some 55, Some 45]) warm_bot []) = None
   \<and> api_request warm_bot
        (request_at 7 (Reply 200 (Some \<lparr>p_code = None, p_message = None, p_values = None\<rparr>)))
       = (warm_bot\<lparr>last_api_call := 7, api_calls := 1\<rparr>, 0,
          Some \<lparr>p_code = None, p_message = None, p_values = None\<rparr>)
   \<and> cycle (example_ext [Some 55, Some 45]) warm_bot
        [(''EUR/USD'',
          request_at 7 (Reply 200 (Some \<lparr>p_code = None, p_message = None, p_values = None\<rparr>)))]
       = \<lparr>state_after = warm_bot\<lparr>last_api_call := 7, api_calls := 1\<rparr>, dispatched = [],
          caught = None, slept = UPDATE_INTERVAL\<rparr>
   \<and> ''EUR/USD'' \<notin> fst ` set [(''USD/JPY'', request_at 8 (reply_bars [example_bar]))]
   \<and> price_history
        (state_after (cycle (example_ext [Some 55, Some 45]) warm_bot
          [(''EUR/USD'',
            request_at 7 (Reply 200 (Some \<lparr>p_code = None, p_message = None, p_values = None\<rparr>))),
           (''USD/JPY'', request_at 8 (reply_bars [example_bar]))])) ''EUR/USD''
       = Some (replicate 15 (5 / 4))
   \<and> dispatched (cycle (example_ext [Some 55, Some 45]) warm_bot
          [(''EUR/USD'',
            request_at 7 (Reply 200 (Some \<lparr>p_code = None, p_message = None, p_values = None\<rparr>))),
           (''USD/JPY'', request_at 8 (reply_bars [example_bar]))])
       = [NoOpportunity ''USD/JPY'' (Some 45) (5 / 4)]"
proof -
  let ?ext = "example_ext [Some 55, Some 45]"
  let ?data = "\<lparr>p_code = None, p_message = None, p_values = None\<rparr>"
  let ?req = "request_at 7 (Reply 200 (Some ?data))"
  let ?s = "warm_bot\<lparr>last_api_call := 7, api_calls := 1\<rparr>"
  let ?post = "[(''USD/JPY'', request_at 8 (reply_bars [example_bar]))]"
  have h1: "caught (cycle ?ext warm_bot []) = None"
    by (simp add: cycle_Nil)
  have ar: "api_request warm_bot ?req = (?s, 0, Some ?data)"
    by (simp add: api_request_def request_at_def warm_bot_def wait_time_def throttled_def
        RATE_LIMIT_def Let_def)
  have h2: "api_request (state_after (cycle ?ext warm_bot [])) ?req = (?s, 0, Some ?data)"
    using ar by (simp add: cycle_Nil)
  have h3: "Some ?data = None \<or> (\<exists>d. Some ?data = Some d \<and> p_values d = None)"
    by simp
  have h4: "''EUR/USD'' \<notin> fst ` set ?post"
    by simp
  have w: "price_history warm_bot ''EUR/USD'' = Some (replicate 15 (5 / 4))"
    by (simp add: warm_bot_def)
  have later: "dispatched (cycle ?ext ?s ?post) = [NoOpportunity ''USD/JPY'' (Some 45) (5 / 4)]"
    using process_pair_example [of 7] by (simp add: cycle_Cons cycle_Nil warm_bot_def)
  note skip = failed_fetch_skips_pair [OF h1 h2 h3, of "''EUR/USD''" ?post]
  from skip have c: "cycle ?ext warm_bot [(''EUR/USD'', ?req)]
       = \<lparr>state_after = ?s, dispatched = [], caught = None, slept = UPDATE_INTERVAL\<rparr>"
    by (simp add: cycle_Nil)
  from skip h4 w have p: "price_history
        (state_after (cycle ?ext warm_bot ((''EUR/USD'', ?req) # ?post))) ''EUR/USD''
       = Some (replicate 15 (5 / 4))"
    by (simp add: cycle_Nil)
  from skip later have d: "dispatched (cycle ?ext warm_bot ((''EUR/USD'', ?req) # ?post))
       = [NoOpportunity ''USD/JPY'' (Some 45) (5 / 4)]"
    by (simp add: cycle_Nil)
  from h1 ar c h4 p d show ?thesis by blast
qed

end
